theory Spec2Isabelle
  imports Main
begin

section \<open>The owning pointer of include/utility/smart_pointer.h\<close>

text \<open>
  \<^verbatim>\<open>utility::SmartPointer<Ty, DTy>\<close> holds a raw pointer \<^verbatim>\<open>m_pointer\<close> and a deleter
  object \<^verbatim>\<open>m_deleter\<close>. Its member functions mutate the object they are called on and,
  for the binary operations, a second object passed by reference, which may be the same
  object. The model therefore keeps the SmartPointer objects in a store indexed by the
  address of the object, and every member function takes the address \<open>this\<close> and the
  world and returns the world it leaves behind.

  A raw pointer is an address; \<open>nullptr\<close> is the address 0. A deleter is either
  \<^verbatim>\<open>std::default_delete\<close> or an object of a user-supplied policy type. Calling a
  deleter is an opaque call out of the class: the model records it in a trace. The trace
  also records every store to an \<^verbatim>\<open>m_pointer\<close> member, in program order, so that the
  order of a store and a deleter call can be read off it.
\<close>

subsection \<open>Data\<close>

type_synonym pointer_type = nat

type_synonym addr = nat

definition nullptr :: pointer_type where
  "nullptr = 0"

datatype 'c deleter_type = default_delete | custom 'c

record 'c SmartPointer =
  m_pointer :: pointer_type
  m_deleter :: "'c deleter_type"

datatype 'c event =
    Store addr pointer_type
  | Invoke "'c deleter_type" pointer_type

record ('c, 'v) world =
  objs :: "addr \<Rightarrow> 'c SmartPointer"
  mem :: "pointer_type \<rightharpoonup> 'v"
  log :: "'c event list"

datatype error = bad_alloc

text \<open>The deleter calls of a trace, in order: which deleter was called on which pointer.\<close>

fun invocations :: "'c event list \<Rightarrow> ('c deleter_type \<times> pointer_type) list" where
  "invocations [] = []"
| "invocations (Store a p # es) = invocations es"
| "invocations (Invoke d p # es) = (d, p) # invocations es"

text \<open>
  \<open>precedes a b es\<close>: the event \<open>a\<close> occurs in \<open>es\<close>, the event \<open>b\<close> occurs in \<open>es\<close>,
  and the first \<open>a\<close> comes before the first \<open>b\<close>.
\<close>

fun precedes :: "'a \<Rightarrow> 'a \<Rightarrow> 'a list \<Rightarrow> bool" where
  "precedes a b [] = False"
| "precedes a b (x # xs) =
     (if x = b then False else if x = a then b \<in> set xs else precedes a b xs)"

text \<open>A world in which every SmartPointer is empty, nothing is allocated and nothing has happened.\<close>

definition world0 :: "('c, 'v) world" where
  "world0 = \<lparr>objs = (\<lambda>_. \<lparr>m_pointer = nullptr, m_deleter = default_delete\<rparr>),
             mem = Map.empty, log = []\<rparr>"

subsection \<open>Member access and the primitive effects\<close>

text \<open>\<^verbatim>\<open>get()\<close>, \<^verbatim>\<open>operator->\<close> and \<^verbatim>\<open>operator pointer_type\<close> return \<^verbatim>\<open>m_pointer\<close>.\<close>

definition get :: "addr \<Rightarrow> ('c, 'v) world \<Rightarrow> pointer_type" where
  "get this w = m_pointer (objs w this)"

definition deleter :: "addr \<Rightarrow> ('c, 'v) world \<Rightarrow> 'c deleter_type" where
  "deleter this w = m_deleter (objs w this)"

definition empty_sp :: "addr \<Rightarrow> ('c, 'v) world \<Rightarrow> bool" where
  "empty_sp this w = (m_pointer (objs w this) = nullptr)"

definition operator_bool :: "addr \<Rightarrow> ('c, 'v) world \<Rightarrow> bool" where
  "operator_bool this w = (m_pointer (objs w this) \<noteq> nullptr)"

text \<open>\<^verbatim>\<open>operator*\<close> returns \<^verbatim>\<open>*m_pointer\<close>; \<open>None\<close> where nothing is allocated there.\<close>

definition operator_deref :: "addr \<Rightarrow> ('c, 'v) world \<Rightarrow> 'v option" where
  "operator_deref this w = mem w (m_pointer (objs w this))"

text \<open>A write to \<^verbatim>\<open>m_pointer\<close> of the object at \<open>this\<close>.\<close>

definition store_pointer :: "addr \<Rightarrow> pointer_type \<Rightarrow> ('c, 'v) world \<Rightarrow> ('c, 'v) world" where
  "store_pointer this p w =
     w\<lparr>objs := (objs w)(this := (objs w this)\<lparr>m_pointer := p\<rparr>),
       log := log w @ [Store this p]\<rparr>"

text \<open>
  A write to \<^verbatim>\<open>m_deleter\<close> of the object at \<open>this\<close>. Deleters are values: moving one
  copies it and leaves the source as it was, as it does for \<^verbatim>\<open>std::default_delete\<close>.
\<close>

definition store_deleter :: "addr \<Rightarrow> 'c deleter_type \<Rightarrow> ('c, 'v) world \<Rightarrow> ('c, 'v) world" where
  "store_deleter this d w =
     w\<lparr>objs := (objs w)(this := (objs w this)\<lparr>m_deleter := d\<rparr>)\<rparr>"

text \<open>The call \<^verbatim>\<open>m_deleter(p)\<close>.\<close>

definition invoke :: "'c deleter_type \<Rightarrow> pointer_type \<Rightarrow> ('c, 'v) world \<Rightarrow> ('c, 'v) world" where
  "invoke d p w = w\<lparr>log := log w @ [Invoke d p]\<rparr>"

text \<open>\<^verbatim>\<open>std::exchange(m_pointer, p)\<close>: stores \<open>p\<close> and returns the value held before.\<close>

definition exchange :: "addr \<Rightarrow> pointer_type \<Rightarrow> ('c, 'v) world \<Rightarrow> pointer_type \<times> ('c, 'v) world" where
  "exchange this p w = (get this w, store_pointer this p w)"

subsection \<open>Constructors and destructor\<close>

text \<open>
  \<^verbatim>\<open>SmartPointer(pointer_type pointer)\<close>: \<^verbatim>\<open>m_deleter\<close> is default-constructed;
  \<open>dty\<close> is that default-constructed \<^verbatim>\<open>DTy\<close> of the instantiation.
\<close>

definition SmartPointer_ptr ::
  "'c deleter_type \<Rightarrow> addr \<Rightarrow> pointer_type \<Rightarrow> ('c, 'v) world \<Rightarrow> ('c, 'v) world" where
  "SmartPointer_ptr dty this pointer w = store_deleter this dty (store_pointer this pointer w)"

text \<open>\<^verbatim>\<open>SmartPointer(pointer_type pointer, const deleter_type& deleter)\<close> and its rvalue twin.\<close>

definition SmartPointer_ptr_del ::
  "addr \<Rightarrow> pointer_type \<Rightarrow> 'c deleter_type \<Rightarrow> ('c, 'v) world \<Rightarrow> ('c, 'v) world" where
  "SmartPointer_ptr_del this pointer d w = store_deleter this d (store_pointer this pointer w)"

text \<open>\<^verbatim>\<open>release()\<close>: \<^verbatim>\<open>return std::exchange(m_pointer, nullptr)\<close>.\<close>

definition release :: "addr \<Rightarrow> ('c, 'v) world \<Rightarrow> pointer_type \<times> ('c, 'v) world" where
  "release this w = exchange this nullptr w"

text \<open>
  \<^verbatim>\<open>SmartPointer(SmartPointer&& right)\<close> and the converting
  \<^verbatim>\<open>SmartPointer(SmartPointer<P, D>&& right)\<close>: the members are initialised in the
  order of their declaration, \<^verbatim>\<open>m_pointer(right.release())\<close> and then
  \<^verbatim>\<open>m_deleter(right.deleter())\<close>.
\<close>

definition SmartPointer_move :: "addr \<Rightarrow> addr \<Rightarrow> ('c, 'v) world \<Rightarrow> ('c, 'v) world" where
  "SmartPointer_move this right w =
     (let (p, w1) = release right w;
          w2 = store_pointer this p w1
      in store_deleter this (deleter right w2) w2)"

text \<open>\<^verbatim>\<open>~SmartPointer()\<close>: \<^verbatim>\<open>if (m_pointer) m_deleter(m_pointer)\<close>.\<close>

definition destructor :: "addr \<Rightarrow> ('c, 'v) world \<Rightarrow> ('c, 'v) world" where
  "destructor this w =
     (if get this w \<noteq> nullptr then invoke (deleter this w) (get this w) w else w)"

subsection \<open>assign, the assignment operators, swap\<close>

text \<open>
  \<^verbatim>\<open>assign(pointer_type& ptr)\<close>:
  \<^verbatim>\<open>pointer_type old = std::exchange(m_pointer, ptr); if (old) m_deleter(old);\<close>
\<close>

definition assign :: "addr \<Rightarrow> pointer_type \<Rightarrow> ('c, 'v) world \<Rightarrow> ('c, 'v) world" where
  "assign this ptr w =
     (let (old, w1) = exchange this ptr w
      in if old \<noteq> nullptr then invoke (deleter this w1) old w1 else w1)"

text \<open>\<^verbatim>\<open>assign(pointer_type&& ptr)\<close>: the same two statements on an rvalue argument.\<close>

definition assign_rv :: "addr \<Rightarrow> pointer_type \<Rightarrow> ('c, 'v) world \<Rightarrow> ('c, 'v) world" where
  "assign_rv this ptr w =
     (let (old, w1) = exchange this ptr w
      in if old \<noteq> nullptr then invoke (deleter this w1) old w1 else w1)"

text \<open>
  \<^verbatim>\<open>operator=(SmartPointer&& right)\<close>:
  \<^verbatim>\<open>assign(right.release()); m_deleter = std::forward<deleter_type>(right.m_deleter);\<close>
\<close>

definition operator_assign_move :: "addr \<Rightarrow> addr \<Rightarrow> ('c, 'v) world \<Rightarrow> ('c, 'v) world" where
  "operator_assign_move this right w =
     (let (p, w1) = release right w;
          w2 = assign_rv this p w1
      in store_deleter this (deleter right w2) w2)"

text \<open>\<^verbatim>\<open>operator=(SmartPointer& right)\<close> has the same body.\<close>

definition operator_assign_lvalue :: "addr \<Rightarrow> addr \<Rightarrow> ('c, 'v) world \<Rightarrow> ('c, 'v) world" where
  "operator_assign_lvalue this right w =
     (let (p, w1) = release right w;
          w2 = assign_rv this p w1
      in store_deleter this (deleter right w2) w2)"

text \<open>\<^verbatim>\<open>operator=(pointer_type right)\<close>: \<^verbatim>\<open>assign(right)\<close>, the parameter being an lvalue.\<close>

definition operator_assign_ptr :: "addr \<Rightarrow> pointer_type \<Rightarrow> ('c, 'v) world \<Rightarrow> ('c, 'v) world" where
  "operator_assign_ptr this right w = assign this right w"

text \<open>
  \<^verbatim>\<open>swap(SmartPointer<value_type>& second)\<close>: \<^verbatim>\<open>std::swap(m_pointer, second.m_pointer)\<close>,
  which is \<^verbatim>\<open>tmp = a; a = b; b = tmp\<close>.
\<close>

definition swap_sp :: "addr \<Rightarrow> addr \<Rightarrow> ('c, 'v) world \<Rightarrow> ('c, 'v) world" where
  "swap_sp this second w =
     (let tmp = get this w;
          w1 = store_pointer this (get second w) w
      in store_pointer second tmp w1)"

text \<open>\<^verbatim>\<open>swap(SmartPointer<value_type>&& second)\<close> has the same body.\<close>

definition swap_rv :: "addr \<Rightarrow> addr \<Rightarrow> ('c, 'v) world \<Rightarrow> ('c, 'v) world" where
  "swap_rv this second w =
     (let tmp = get this w;
          w1 = store_pointer this (get second w) w
      in store_pointer second tmp w1)"

subsection \<open>The conversion operator and the factory\<close>

text \<open>
  \<^verbatim>\<open>operator SmartPointer<P>() const\<close>: \<^verbatim>\<open>return SmartPointer<P>(m_pointer)\<close>. The result
  is a new object, at \<open>res\<close>, of a type whose deleter is \<^verbatim>\<open>std::default_delete<P>\<close>.
\<close>

definition operator_convert :: "addr \<Rightarrow> addr \<Rightarrow> ('c, 'v) world \<Rightarrow> ('c, 'v) world" where
  "operator_convert this res w = SmartPointer_ptr default_delete res (get this w) w"

text \<open>
  \<^verbatim>\<open>new value_type(args...)\<close>. The allocator belongs to the C++ runtime and is a
  parameter: \<open>alloc w\<close> is the address it hands out in the world \<open>w\<close>, or \<open>None\<close> when
  it throws \<^verbatim>\<open>std::bad_alloc\<close>. The constructor of \<^verbatim>\<open>value_type\<close> is the parameter \<open>ctor\<close>.
\<close>

definition operator_new ::
  "(('c, 'v) world \<Rightarrow> pointer_type option) \<Rightarrow> ('a \<Rightarrow> 'v) \<Rightarrow> 'a \<Rightarrow> ('c, 'v) world
     \<Rightarrow> (error + pointer_type) \<times> ('c, 'v) world" where
  "operator_new alloc ctor args w =
     (case alloc w of
        None \<Rightarrow> (Inl bad_alloc, w)
      | Some p \<Rightarrow> (Inr p, w\<lparr>mem := (mem w)(p \<mapsto> ctor args)\<rparr>))"

text \<open>
  \<^verbatim>\<open>create(args...)\<close>: \<^verbatim>\<open>return SmartPointer<value_type>(new value_type(args...))\<close>.
  The returned object is constructed at \<open>res\<close>; an exception of \<^verbatim>\<open>new\<close> leaves the
  function before the constructor of the SmartPointer runs.
\<close>

definition create ::
  "(('c, 'v) world \<Rightarrow> pointer_type option) \<Rightarrow> ('a \<Rightarrow> 'v) \<Rightarrow> 'a \<Rightarrow> addr \<Rightarrow> ('c, 'v) world
     \<Rightarrow> (error + addr) \<times> ('c, 'v) world" where
  "create alloc ctor args res w =
     (case operator_new alloc ctor args w of
        (Inl e, w1) \<Rightarrow> (Inl e, w1)
      | (Inr p, w1) \<Rightarrow> (Inr res, SmartPointer_ptr default_delete res p w1))"

section \<open>Properties\<close>

subsection \<open>Helper facts about the primitive effects\<close>

lemma invocations_append: "invocations (xs @ ys) = invocations xs @ invocations ys"
  by (induction xs rule: invocations.induct) simp_all

lemmas sp_defs = release_def exchange_def store_pointer_def store_deleter_def invoke_def
  empty_sp_def get_def deleter_def

lemmas ctor_defs = SmartPointer_ptr_def SmartPointer_ptr_del_def SmartPointer_move_def

subsection \<open>assign\<close>

text \<open>
  C1, as stated: \<open>assign\<close> calls the deleter on the old pointer before the new pointer can
  be read through \<open>get\<close>. It fails for the SmartPointer at address 0 that holds the
  pointer 1 with the default deleter, on \<open>assign(2)\<close>: the pointer 2 is stored first and
  the deleter is called on 1 afterwards, so that between the two statements of \<open>assign\<close>
  \<open>get\<close> already returns 2 and no deleter has run.
\<close>

theorem assign_destroy_before_adopt_counterexample:
  "\<not> precedes (Invoke default_delete 1) (Store 0 2)
       (log (assign 0 2 (SmartPointer_ptr default_delete 0 1 (world0 :: (nat, nat) world))))
   \<and> log (assign 0 2 (SmartPointer_ptr default_delete 0 1 (world0 :: (nat, nat) world)))
       = [Store 0 1, Store 0 2, Invoke default_delete 1]
   \<and> get 0 (snd (exchange 0 2 (SmartPointer_ptr default_delete 0 1 (world0 :: (nat, nat) world)))) = 2
   \<and> invocations (log (snd (exchange 0 2
        (SmartPointer_ptr default_delete 0 1 (world0 :: (nat, nat) world))))) = []"
  by (simp add: assign_def sp_defs ctor_defs world0_def nullptr_def)

text \<open>
  C1, amended: on a SmartPointer that holds a non-null pointer \<open>h1\<close>, \<open>assign(h2)\<close> (either
  overload) first stores \<open>h2\<close>, so that \<open>get\<close> returns \<open>h2\<close> from then on, and then calls
  the SmartPointer's deleter on \<open>h1\<close>, exactly once; these two events, in this order, are
  all that \<open>assign\<close> adds to the trace, and \<open>get\<close> returns \<open>h2\<close> when it has returned.
\<close>

theorem assign_stores_then_invokes:
  "get a w = h1 \<Longrightarrow> h1 \<noteq> nullptr \<Longrightarrow>
     log (assign a h2 w) = log w @ [Store a h2, Invoke (deleter a w) h1]
   \<and> log (assign_rv a h2 w) = log w @ [Store a h2, Invoke (deleter a w) h1]
   \<and> get a (snd (exchange a h2 w)) = h2
   \<and> invocations (log (snd (exchange a h2 w))) = invocations (log w)
   \<and> get a (assign a h2 w) = h2
   \<and> get a (assign_rv a h2 w) = h2"
  by (simp add: assign_def assign_rv_def sp_defs invocations_append)

theorem assign_stores_then_invokes_witness:
  "get 0 (SmartPointer_ptr default_delete 0 1 (world0 :: (nat, nat) world)) = 1
   \<and> (1::nat) \<noteq> nullptr
   \<and> log (assign 0 2 (SmartPointer_ptr default_delete 0 1 (world0 :: (nat, nat) world)))
       = [Store 0 1, Store 0 2, Invoke default_delete 1]
   \<and> get 0 (assign 0 2 (SmartPointer_ptr default_delete 0 1 (world0 :: (nat, nat) world))) = 2"
proof -
  let ?w = "SmartPointer_ptr default_delete 0 1 (world0 :: (nat, nat) world)"
  have held: "get 0 ?w = 1"
    by (simp add: sp_defs ctor_defs)
  have nonnull: "(1::nat) \<noteq> nullptr"
    by (simp add: nullptr_def)
  have before: "log ?w = [Store 0 1]" "deleter 0 ?w = default_delete"
    by (simp_all add: sp_defs ctor_defs world0_def)
  from assign_stores_then_invokes [OF held nonnull, of 2] show ?thesis
    using held nonnull before by simp
qed

subsection \<open>The conversion operator\<close>

text \<open>
  C2. The conversion to \<^verbatim>\<open>SmartPointer<P>\<close> does not consume ownership. Converting the
  SmartPointer at address 0, which holds the pointer 5, into a new SmartPointer at
  address 1 leaves the source holding 5, not empty; both objects then hold 5, and
  destroying both calls a deleter on 5 twice. The converting move constructor from the
  same source leaves it empty, and the two destructors then call a deleter on 5 once.
\<close>

theorem operator_convert_leaves_source_owning:
  "get 0 (operator_convert 0 1 (SmartPointer_ptr default_delete 0 5 (world0 :: (nat, nat) world))) = 5
   \<and> get 1 (operator_convert 0 1 (SmartPointer_ptr default_delete 0 5 (world0 :: (nat, nat) world))) = 5
   \<and> \<not> empty_sp 0 (operator_convert 0 1 (SmartPointer_ptr default_delete 0 5 (world0 :: (nat, nat) world)))
   \<and> invocations (log (destructor 0 (destructor 1
        (operator_convert 0 1 (SmartPointer_ptr default_delete 0 5 (world0 :: (nat, nat) world))))))
       = [(default_delete, 5), (default_delete, 5)]
   \<and> empty_sp 0 (SmartPointer_move 1 0 (SmartPointer_ptr default_delete 0 5 (world0 :: (nat, nat) world)))
   \<and> invocations (log (destructor 0 (destructor 1
        (SmartPointer_move 1 0 (SmartPointer_ptr default_delete 0 5 (world0 :: (nat, nat) world))))))
       = [(default_delete, 5)]"
  by (simp add: operator_convert_def destructor_def sp_defs ctor_defs world0_def nullptr_def)

subsection \<open>Destruction, release and move construction\<close>

text \<open>
  C3. Destroying a SmartPointer constructed from a non-null pointer \<open>h\<close> calls its deleter
  on \<open>h\<close>, once, and calls nothing else. Destroying a SmartPointer constructed from
  \<open>nullptr\<close>, one whose pointer has been released, or one that has been moved from calls
  no deleter: the destructor leaves the world as it found it. In any world, the
  destructor adds to the trace one call on the held pointer if that is non-null, and
  nothing otherwise.
\<close>

theorem destructor_invokes_exactly_once:
  "h \<noteq> nullptr \<Longrightarrow> a \<noteq> b \<Longrightarrow>
     invocations (log (destructor a (SmartPointer_ptr dty a h w))) = invocations (log w) @ [(dty, h)]
   \<and> invocations (log (destructor a (SmartPointer_ptr_del a h d w))) = invocations (log w) @ [(d, h)]
   \<and> destructor a (SmartPointer_ptr dty a nullptr w) = SmartPointer_ptr dty a nullptr w
   \<and> destructor a (snd (release a (SmartPointer_ptr dty a h w)))
       = snd (release a (SmartPointer_ptr dty a h w))
   \<and> destructor a (SmartPointer_move b a (SmartPointer_ptr dty a h w))
       = SmartPointer_move b a (SmartPointer_ptr dty a h w)
   \<and> log (destructor a w)
       = log w @ (if get a w = nullptr then [] else [Invoke (deleter a w) (get a w)])"
  by (simp add: destructor_def sp_defs ctor_defs invocations_append)

theorem destructor_invokes_exactly_once_witness:
  "(5::nat) \<noteq> nullptr \<and> (0::nat) \<noteq> 1
   \<and> invocations (log (destructor 0 (SmartPointer_ptr default_delete 0 5 (world0 :: (nat, nat) world))))
       = [(default_delete, 5)]
   \<and> invocations (log (destructor 0 (SmartPointer_ptr_del 0 5 (custom 3) (world0 :: (nat, nat) world))))
       = [(custom 3, 5)]
   \<and> invocations (log (destructor 0 (SmartPointer_ptr default_delete 0 nullptr (world0 :: (nat, nat) world))))
       = []
   \<and> invocations (log (destructor 0 (snd (release 0
        (SmartPointer_ptr default_delete 0 5 (world0 :: (nat, nat) world)))))) = []
   \<and> invocations (log (destructor 0 (SmartPointer_move 1 0
        (SmartPointer_ptr default_delete 0 5 (world0 :: (nat, nat) world))))) = []"
proof -
  have nonnull: "(5::nat) \<noteq> nullptr"
    by (simp add: nullptr_def)
  have distinct: "(0::nat) \<noteq> 1"
    by simp
  have start: "log (world0 :: (nat, nat) world) = []"
    by (simp add: world0_def)
  from destructor_invokes_exactly_once [OF nonnull distinct,
      where dty = default_delete and d = "custom 3" and w = "world0 :: (nat, nat) world"]
  show ?thesis
    using nonnull distinct start
    by (simp add: sp_defs ctor_defs invocations_append)
qed

text \<open>
  C4. \<open>release\<close> returns the pointer the SmartPointer held before the call, leaves the
  SmartPointer empty, and calls no deleter: the trace gains the store of \<open>nullptr\<close> only.
\<close>

theorem release_returns_and_empties:
  "fst (release a w) = get a w
   \<and> empty_sp a (snd (release a w))
   \<and> invocations (log (snd (release a w))) = invocations (log w)
   \<and> log (snd (release a w)) = log w @ [Store a nullptr]"
  by (simp add: release_def exchange_def store_pointer_def empty_sp_def get_def
      invocations_append)

text \<open>
  C5. Move-constructing a SmartPointer at \<open>b\<close> from the SmartPointer at \<open>a\<close>, a different
  object, leaves \<open>a\<close> empty and \<open>b\<close> holding the pointer and the deleter \<open>a\<close> had; no
  deleter is called: the trace gains the store of \<open>nullptr\<close> into \<open>a\<close> and then the store
  of the pointer into \<open>b\<close>.
\<close>

theorem move_constructor_transfers:
  "b \<noteq> a \<Longrightarrow>
     empty_sp a (SmartPointer_move b a w)
   \<and> get b (SmartPointer_move b a w) = get a w
   \<and> deleter b (SmartPointer_move b a w) = deleter a w
   \<and> invocations (log (SmartPointer_move b a w)) = invocations (log w)
   \<and> log (SmartPointer_move b a w) = log w @ [Store a nullptr, Store b (get a w)]"
  by (simp add: sp_defs ctor_defs invocations_append)

theorem move_constructor_transfers_witness:
  "(1::nat) \<noteq> 0
   \<and> empty_sp 0 (SmartPointer_move 1 0 (SmartPointer_ptr_del 0 5 (custom 3) (world0 :: (nat, nat) world)))
   \<and> get 1 (SmartPointer_move 1 0 (SmartPointer_ptr_del 0 5 (custom 3) (world0 :: (nat, nat) world))) = 5
   \<and> deleter 1 (SmartPointer_move 1 0 (SmartPointer_ptr_del 0 5 (custom 3) (world0 :: (nat, nat) world)))
       = custom 3
   \<and> invocations (log (SmartPointer_move 1 0
        (SmartPointer_ptr_del 0 5 (custom 3) (world0 :: (nat, nat) world)))) = []"
proof -
  let ?w = "SmartPointer_ptr_del 0 5 (custom 3) (world0 :: (nat, nat) world)"
  have distinct: "(1::nat) \<noteq> 0"
    by simp
  have before: "get 0 ?w = 5" "deleter 0 ?w = custom 3" "invocations (log ?w) = []"
    by (simp_all add: sp_defs ctor_defs world0_def)
  from move_constructor_transfers [OF distinct, of ?w] show ?thesis
    using distinct before by (simp add: invocations_append)
qed

subsection \<open>Assignment operators\<close>

text \<open>
  C6. The three assignment operators go through \<open>assign\<close>. Assigning from another
  SmartPointer \<open>b\<close>, by rvalue or by lvalue reference, is \<open>assign\<close> of the pointer released
  from \<open>b\<close> followed by the copy of the deleter; assigning from a raw pointer is
  \<open>assign\<close>. In each case the destination \<open>a\<close> ends up holding the source's pointer, and
  the deleter \<open>a\<close> had is called exactly once on the pointer \<open>a\<close> held if that was non-null
  (no deleter is called otherwise); a source SmartPointer \<open>b\<close> is left empty. The source
  and the destination are two objects here; assigning a SmartPointer to itself is C9.
\<close>

theorem assignment_operators_route_through_assign:
  "a \<noteq> b \<Longrightarrow>
     operator_assign_move a b w
       = store_deleter a (deleter b w) (assign_rv a (get b w) (snd (release b w)))
   \<and> get a (operator_assign_move a b w) = get b w
   \<and> empty_sp b (operator_assign_move a b w)
   \<and> deleter a (operator_assign_move a b w) = deleter b w
   \<and> invocations (log (operator_assign_move a b w))
       = invocations (log w) @ (if get a w = nullptr then [] else [(deleter a w, get a w)])
   \<and> operator_assign_lvalue a b w
       = store_deleter a (deleter b w) (assign_rv a (get b w) (snd (release b w)))
   \<and> get a (operator_assign_lvalue a b w) = get b w
   \<and> empty_sp b (operator_assign_lvalue a b w)
   \<and> deleter a (operator_assign_lvalue a b w) = deleter b w
   \<and> invocations (log (operator_assign_lvalue a b w))
       = invocations (log w) @ (if get a w = nullptr then [] else [(deleter a w, get a w)])
   \<and> operator_assign_ptr a p w = assign a p w
   \<and> get a (operator_assign_ptr a p w) = p
   \<and> invocations (log (operator_assign_ptr a p w))
       = invocations (log w) @ (if get a w = nullptr then [] else [(deleter a w, get a w)])"
  by (simp add: operator_assign_move_def operator_assign_lvalue_def operator_assign_ptr_def
      assign_def assign_rv_def sp_defs invocations_append)

theorem assignment_operators_route_through_assign_witness:
  "(0::nat) \<noteq> 1
   \<and> get 0 (operator_assign_move 0 1 (SmartPointer_ptr_del 1 7 (custom 3)
        (SmartPointer_ptr default_delete 0 5 (world0 :: (nat, nat) world)))) = 7
   \<and> empty_sp 1 (operator_assign_move 0 1 (SmartPointer_ptr_del 1 7 (custom 3)
        (SmartPointer_ptr default_delete 0 5 (world0 :: (nat, nat) world))))
   \<and> invocations (log (operator_assign_move 0 1 (SmartPointer_ptr_del 1 7 (custom 3)
        (SmartPointer_ptr default_delete 0 5 (world0 :: (nat, nat) world)))))
       = [(default_delete, 5)]
   \<and> get 0 (operator_assign_ptr 0 9 (SmartPointer_ptr_del 1 7 (custom 3)
        (SmartPointer_ptr default_delete 0 5 (world0 :: (nat, nat) world)))) = 9
   \<and> invocations (log (operator_assign_ptr 0 9 (SmartPointer_ptr_del 1 7 (custom 3)
        (SmartPointer_ptr default_delete 0 5 (world0 :: (nat, nat) world)))))
       = [(default_delete, 5)]"
proof -
  let ?w = "SmartPointer_ptr_del 1 7 (custom 3)
              (SmartPointer_ptr default_delete 0 5 (world0 :: (nat, nat) world))"
  have distinct: "(0::nat) \<noteq> 1"
    by simp
  have before: "get 0 ?w = 5" "get 1 ?w = 7" "deleter 0 ?w = default_delete"
    "invocations (log ?w) = []"
    by (simp_all add: sp_defs ctor_defs world0_def)
  have nonnull: "(5::nat) \<noteq> nullptr"
    by (simp add: nullptr_def)
  from assignment_operators_route_through_assign [OF distinct, of ?w 9] show ?thesis
    using distinct before nonnull
    by (simp add: operator_assign_move_def operator_assign_lvalue_def operator_assign_ptr_def
        assign_def assign_rv_def sp_defs ctor_defs world0_def nullptr_def)
qed

text \<open>
  C9. Assigning a SmartPointer to itself, by rvalue or by lvalue reference, leaves it
  holding the pointer it held and calls no deleter, whether it was empty or not:
  \<open>release\<close> stores \<open>nullptr\<close> first, so \<open>assign\<close> finds nothing to destroy and stores the
  released pointer back.
\<close>

theorem self_move_assignment_harmless:
  "get a (operator_assign_move a a w) = get a w
   \<and> invocations (log (operator_assign_move a a w)) = invocations (log w)
   \<and> log (operator_assign_move a a w) = log w @ [Store a nullptr, Store a (get a w)]
   \<and> get a (operator_assign_lvalue a a w) = get a w
   \<and> invocations (log (operator_assign_lvalue a a w)) = invocations (log w)"
  by (simp add: operator_assign_move_def operator_assign_lvalue_def assign_rv_def sp_defs
      invocations_append)

subsection \<open>swap\<close>

text \<open>
  C7. After \<open>a.swap(b)\<close>, by either overload, \<open>a\<close> holds the pointer \<open>b\<close> held and \<open>b\<close>
  holds the pointer \<open>a\<close> held, and no deleter has been called.
\<close>

theorem swap_exchanges_pointers:
  "get a (swap_sp a b w) = get b w
   \<and> get b (swap_sp a b w) = get a w
   \<and> invocations (log (swap_sp a b w)) = invocations (log w)
   \<and> get a (swap_rv a b w) = get b w
   \<and> get b (swap_rv a b w) = get a w
   \<and> invocations (log (swap_rv a b w)) = invocations (log w)"
  by (simp add: swap_sp_def swap_rv_def sp_defs invocations_append Let_def)

text \<open>
  C10. \<open>swap\<close>, by either overload, writes no deleter: every SmartPointer, the two that
  are swapped among them, has after the swap the deleter it had before.
\<close>

theorem swap_leaves_deleters:
  "deleter c (swap_sp a b w) = deleter c w
   \<and> deleter c (swap_rv a b w) = deleter c w"
  by (simp add: swap_sp_def swap_rv_def sp_defs Let_def)

subsection \<open>The factory\<close>

text \<open>
  C8. When the allocation succeeds with the address \<open>p\<close>, \<open>create(args)\<close> returns a
  SmartPointer that holds \<open>p\<close>, whose deleter is the default deleter and whose referenced
  value is the value constructed from \<open>args\<close>; no deleter is called. When the allocation
  fails, \<open>create\<close> fails with the allocation's error and leaves the world as it found it:
  no SmartPointer has been constructed.
\<close>

theorem create_owns_constructed_value_or_propagates:
  "(alloc w = Some p \<longrightarrow>
      fst (create alloc ctor args res w) = Inr res
    \<and> get res (snd (create alloc ctor args res w)) = p
    \<and> deleter res (snd (create alloc ctor args res w)) = default_delete
    \<and> operator_deref res (snd (create alloc ctor args res w)) = Some (ctor args)
    \<and> invocations (log (snd (create alloc ctor args res w))) = invocations (log w))
   \<and> (alloc w = None \<longrightarrow> create alloc ctor args res w = (Inl bad_alloc, w))"
  by (simp add: create_def operator_new_def operator_deref_def sp_defs ctor_defs
      invocations_append)

theorem create_owns_constructed_value_or_propagates_witness:
  "(\<lambda>_. Some 7) (world0 :: (nat, nat) world) = Some (7::nat)
   \<and> fst (create (\<lambda>_. Some 7) Suc 4 0 (world0 :: (nat, nat) world)) = Inr 0
   \<and> get 0 (snd (create (\<lambda>_. Some 7) Suc 4 0 (world0 :: (nat, nat) world))) = 7
   \<and> deleter 0 (snd (create (\<lambda>_. Some 7) Suc 4 0 (world0 :: (nat, nat) world))) = default_delete
   \<and> operator_deref 0 (snd (create (\<lambda>_. Some 7) Suc 4 0 (world0 :: (nat, nat) world))) = Some 5
   \<and> (\<lambda>_. None) (world0 :: (nat, nat) world) = (None :: nat option)
   \<and> create (\<lambda>_. None) Suc 4 0 (world0 :: (nat, nat) world) = (Inl bad_alloc, world0)"
proof -
  have ok: "(\<lambda>_. Some 7) (world0 :: (nat, nat) world) = Some (7::nat)"
    by simp
  have fails: "(\<lambda>_. None) (world0 :: (nat, nat) world) = (None :: nat option)"
    by simp
  from create_owns_constructed_value_or_propagates
         [where alloc = "\<lambda>_. Some 7" and w = "world0 :: (nat, nat) world" and p = 7
            and ctor = Suc and args = 4 and res = 0]
       create_owns_constructed_value_or_propagates
         [where alloc = "\<lambda>_. None" and w = "world0 :: (nat, nat) world" and p = 7
            and ctor = Suc and args = 4 and res = 0]
  show ?thesis
    using ok fails by simp
qed

end
